theory Spec2Isabelle
  imports Main "HOL-Library.Sublist"
begin

section \<open>Thrown values and the two connection-error classifiers\<close>

text \<open>
  A JavaScript \<^verbatim>\<open>catch\<close> clause receives any value. The code tells an
  \<^verbatim>\<open>Error\<close> instance (kept as it is) from every other value (replaced by a fresh
  \<^verbatim>\<open>Error\<close> with a fixed message). An \<^verbatim>\<open>Error\<close> is represented by its message,
  the only member the code reads.
\<close>

datatype thrown = ErrorObj string | NonError

text \<open>\<^verbatim>\<open>message.includes(marker)\<close>: the marker occurs as a contiguous substring.\<close>

primrec str_includes :: "string \<Rightarrow> string \<Rightarrow> bool" where
  "str_includes [] marker = (marker = [])"
| "str_includes (c # cs) marker = (prefix marker (c # cs) \<or> str_includes cs marker)"

text \<open>The test written inline in \<^verbatim>\<open>withRetry\<close> (database module): six markers.\<close>

definition retry_isConnectionError :: "string \<Rightarrow> bool" where
  "retry_isConnectionError message =
     (str_includes message ''Server has closed the connection'' \<or>
      str_includes message ''terminating connection'' \<or>
      str_includes message ''Connection refused'' \<or>
      str_includes message ''57P01'' \<or>
      str_includes message ''Connection pool timeout'' \<or>
      str_includes message ''kind: Closed'')"

text \<open>\<^verbatim>\<open>isConnectionError\<close> of the logger module: seven markers.\<close>

definition isConnectionError :: "string \<Rightarrow> bool" where
  "isConnectionError message =
     (str_includes message ''Server has closed the connection'' \<or>
      str_includes message ''terminating connection'' \<or>
      str_includes message ''Connection refused'' \<or>
      str_includes message ''57P01'' \<or>
      str_includes message ''Connection pool timeout'' \<or>
      str_includes message ''kind: Closed'' \<or>
      str_includes message ''ConnectorError'')"

section \<open>The breaker state of the audit log sink\<close>

record log_state =
  dbLoggingEnabled :: bool
  dbLoggingRetryCount :: int
  dbLoggingPaused :: bool
  dbLoggingPauseUntil :: int

definition MAX_DB_LOGGING_RETRIES :: int where
  "MAX_DB_LOGGING_RETRIES = 3"

definition DB_LOGGING_PAUSE_DURATION :: int where
  "DB_LOGGING_PAUSE_DURATION = 30000"

text \<open>The module-level initial values.\<close>

definition initial_log_state :: log_state where
  "initial_log_state =
     \<lparr>dbLoggingEnabled = False, dbLoggingRetryCount = 0,
      dbLoggingPaused = False, dbLoggingPauseUntil = 0\<rparr>"

definition enableDatabaseLogging :: "log_state \<Rightarrow> log_state" where
  "enableDatabaseLogging s =
     s\<lparr>dbLoggingEnabled := True, dbLoggingRetryCount := 0, dbLoggingPaused := False\<rparr>"

text \<open>
  The synchronous part of \<^verbatim>\<open>logToDatabase\<close>, up to the call of
  \<^verbatim>\<open>setImmediate\<close>. \<open>now\<close> is what \<^verbatim>\<open>Date.now()\<close> returns in the pause test
  and \<open>now2\<close> what it returns when the pause is engaged. The first component is the
  callback handed to \<^verbatim>\<open>setImmediate\<close> (represented by the event it will persist),
  or \<open>None\<close> when nothing is scheduled.
\<close>

definition logToDatabase :: "int \<Rightarrow> int \<Rightarrow> 'd \<Rightarrow> log_state \<Rightarrow> 'd option \<times> log_state" where
  "logToDatabase now now2 data s =
     (if \<not> dbLoggingEnabled s then (None, s)
      else if dbLoggingPaused s \<and> now < dbLoggingPauseUntil s then (None, s)
      else
        let s1 = (if dbLoggingPaused s
                  then s\<lparr>dbLoggingPaused := False, dbLoggingRetryCount := 0\<rparr>
                  else s)
        in if dbLoggingRetryCount s1 \<ge> MAX_DB_LOGGING_RETRIES
           then (None, s1\<lparr>dbLoggingPaused := True,
                           dbLoggingPauseUntil := now2 + DB_LOGGING_PAUSE_DURATION\<rparr>)
           else (Some data, s1))"

text \<open>
  The end of the deferred callback: the statement after the awaited persistence
  (\<open>Inr\<close>) or the \<^verbatim>\<open>catch\<close> block (\<open>Inl\<close>), run on the breaker state of that
  moment; \<open>now\<close> is \<^verbatim>\<open>Date.now()\<close> in the \<^verbatim>\<open>catch\<close> block.
\<close>

definition persist_settled :: "thrown + unit \<Rightarrow> int \<Rightarrow> log_state \<Rightarrow> log_state" where
  "persist_settled outcome now s =
     (case outcome of
        Inr _ \<Rightarrow> s\<lparr>dbLoggingRetryCount := 0\<rparr>
      | Inl dbError \<Rightarrow>
          let message = (case dbError of ErrorObj m \<Rightarrow> m | NonError \<Rightarrow> ''Unknown'')
          in if isConnectionError message then
               let s1 = s\<lparr>dbLoggingRetryCount := dbLoggingRetryCount s + 1\<rparr>
               in if dbLoggingRetryCount s1 \<ge> MAX_DB_LOGGING_RETRIES
                  then s1\<lparr>dbLoggingPaused := True,
                          dbLoggingPauseUntil := now + DB_LOGGING_PAUSE_DURATION\<rparr>
                  else s1
             else s)"

section \<open>The connection supervisor\<close>

text \<open>
  A client is identified by the order of its construction: the k-th
  \<^verbatim>\<open>new PrismaClient\<close> of the process yields handle \<open>k\<close> (from 0).
  Promises live in a store addressed by number; \<open>initPromise\<close> holds such an address.
\<close>

type_synonym handle = nat

datatype promise_state = Pending | Fulfilled handle | Rejected thrown

record db_state =
  prismaInstance :: "handle option"
  initPromise :: "nat option"
  isReconnecting :: bool
  connectionCheckTimer :: "handle option"
  promises :: "nat \<Rightarrow> promise_state"
  nextPromise :: nat
  constructed :: nat
  disconnected :: "handle list"

text \<open>
  \<open>connectionCheckTimer\<close> names the client the keep-alive interval pings;
  \<open>constructed\<close> counts the clients constructed so far and \<open>disconnected\<close> lists the
  clients \<^verbatim>\<open>$disconnect()\<close> was called on. The state at module load:
\<close>

definition initial_db_state :: db_state where
  "initial_db_state =
     \<lparr>prismaInstance = None, initPromise = None, isReconnecting = False,
      connectionCheckTimer = None, promises = (\<lambda>_. Pending), nextPromise = 0,
      constructed = 0, disconnected = []\<rparr>"

text \<open>
  What the surroundings decide: \<open>initOutcome p\<close> is what the body of initialization
  promise \<open>p\<close> throws before it registers the client (the dynamic import fails,
  \<^verbatim>\<open>new URL(DATABASE_URL)\<close> or the client's constructor throws), \<open>None\<close> when nothing
  does; \<open>connectOutcome c\<close> is what \<^verbatim>\<open>$connect()\<close> of client \<open>c\<close> throws.
\<close>

record world =
  initOutcome :: "nat \<Rightarrow> thrown option"
  connectOutcome :: "handle \<Rightarrow> thrown option"

text \<open>The promise an \<^verbatim>\<open>async\<close> acquire call returns: already fulfilled, or the stored one.\<close>

datatype acquired = Ready handle | Awaiting nat

text \<open>
  \<^verbatim>\<open>initializePrisma\<close>, the part that runs within the call: the two early returns, or
  the creation of the initialization promise, whose body stops at its first
  \<^verbatim>\<open>await\<close> before touching any variable.
\<close>

definition initializePrisma :: "db_state \<Rightarrow> acquired \<times> db_state" where
  "initializePrisma s =
     (case prismaInstance s of
        Some client \<Rightarrow> (Ready client, s)
      | None \<Rightarrow>
          (case initPromise s of
             Some p \<Rightarrow> (Awaiting p, s)
           | None \<Rightarrow>
               let p = nextPromise s
               in (Awaiting p,
                   s\<lparr>initPromise := Some p, promises := (promises s)(p := Pending),
                     nextPromise := Suc p\<rparr>)))"

text \<open>
  The rest of the body of initialization promise \<open>p\<close>, run when its import has
  settled: either it throws and the promise rejects, or it constructs the client,
  starts the keep-alive timer for it (replacing the previous timer), stores it in
  \<open>prismaInstance\<close> and fulfils the promise.
\<close>

definition init_body :: "thrown option \<Rightarrow> nat \<Rightarrow> db_state \<Rightarrow> db_state" where
  "init_body outcome p s =
     (case outcome of
        Some e \<Rightarrow> s\<lparr>promises := (promises s)(p := Rejected e)\<rparr>
      | None \<Rightarrow>
          let client = constructed s
          in s\<lparr>constructed := Suc client, connectionCheckTimer := Some client,
               prismaInstance := Some client,
               promises := (promises s)(p := Fulfilled client)\<rparr>)"

definition getPrismaClientAsync :: "db_state \<Rightarrow> acquired \<times> db_state" where
  "getPrismaClientAsync s = initializePrisma s"

text \<open>What a returned promise has settled to in a state.\<close>

definition settled :: "db_state \<Rightarrow> acquired \<Rightarrow> promise_state" where
  "settled s a = (case a of Ready client \<Rightarrow> Fulfilled client | Awaiting p \<Rightarrow> promises s p)"

text \<open>\<open>n\<close> acquire calls in a row, none of them awaited yet.\<close>

fun acquire_calls :: "nat \<Rightarrow> db_state \<Rightarrow> acquired list \<times> db_state" where
  "acquire_calls 0 s = ([], s)"
| "acquire_calls (Suc n) s =
     (case getPrismaClientAsync s of
        (a, s1) \<Rightarrow> (case acquire_calls n s1 of (as, s2) \<Rightarrow> (a # as, s2)))"

text \<open>
  Awaiting a promise in a task that runs alone: a pending initialization body runs
  to its end with the outcome the world gives it.
\<close>

definition await_acquired :: "world \<Rightarrow> acquired \<Rightarrow> db_state \<Rightarrow> (thrown + handle) \<times> db_state" where
  "await_acquired w a s =
     (case a of
        Ready client \<Rightarrow> (Inr client, s)
      | Awaiting p \<Rightarrow>
          (case promises s p of
             Fulfilled client \<Rightarrow> (Inr client, s)
           | Rejected e \<Rightarrow> (Inl e, s)
           | Pending \<Rightarrow>
               (case initOutcome w p of
                  Some e \<Rightarrow> (Inl e, init_body (Some e) p s)
                | None \<Rightarrow> (Inr (constructed s), init_body None p s))))"

definition await_getPrismaClientAsync :: "world \<Rightarrow> db_state \<Rightarrow> (thrown + handle) \<times> db_state" where
  "await_getPrismaClientAsync w s =
     (case getPrismaClientAsync s of (a, s1) \<Rightarrow> await_acquired w a s1)"

text \<open>
  \<^verbatim>\<open>reconnectPrisma\<close>, awaited by a task that runs alone. With a reconnect under
  way it waits one second and acquires. Otherwise it disconnects the current client
  (an error of \<^verbatim>\<open>$disconnect()\<close> is swallowed), clears \<open>prismaInstance\<close> and
  \<open>initPromise\<close>, initializes again and connects; \<^verbatim>\<open>finally\<close> lowers the flag.
\<close>

definition reconnectPrisma :: "world \<Rightarrow> db_state \<Rightarrow> (thrown + handle) \<times> db_state" where
  "reconnectPrisma w s =
     (if isReconnecting s then await_getPrismaClientAsync w s
      else
        let s1 = s\<lparr>isReconnecting := True\<rparr>;
            s2 = (case prismaInstance s1 of
                    Some old \<Rightarrow> s1\<lparr>disconnected := old # disconnected s1\<rparr>
                  | None \<Rightarrow> s1);
            s3 = s2\<lparr>prismaInstance := None, initPromise := None\<rparr>
        in case initializePrisma s3 of
             (a, s4) \<Rightarrow>
               (case await_acquired w a s4 of
                  (Inl e, s5) \<Rightarrow> (Inl e, s5\<lparr>isReconnecting := False\<rparr>)
                | (Inr client, s5) \<Rightarrow>
                    (case connectOutcome w client of
                       Some e \<Rightarrow> (Inl e, s5\<lparr>isReconnecting := False\<rparr>)
                     | None \<Rightarrow> (Inr client, s5\<lparr>isReconnecting := False\<rparr>))))"

section \<open>The lazy access facade\<close>

text \<open>A property key is a string or a symbol; \<^verbatim>\<open>String(key)\<close> prints it.\<close>

datatype property_key = StringKey string | SymbolKey string

fun String_of :: "property_key \<Rightarrow> string" where
  "String_of (StringKey name) = name"
| "String_of (SymbolKey description) = ''Symbol('' @ description @ '')''"

datatype facade_value = Boolean bool | Undefined | ClientMember handle property_key

definition not_initialized_message :: "property_key \<Rightarrow> string" where
  "not_initialized_message key =
     ''Prisma not initialized. Accessing '' @ [CHR 0x27] @ String_of key @ [CHR 0x27] @
     '' before database is ready. Use getPrismaClientAsync() for async operations.''"

text \<open>The \<^verbatim>\<open>get\<close> trap of the proxy \<^verbatim>\<open>createLazyProxy\<close> returns.\<close>

definition lazyProxy_get :: "db_state \<Rightarrow> property_key \<Rightarrow> thrown + facade_value" where
  "lazyProxy_get s key =
     (if key = StringKey ''_initialized'' then Inr (Boolean (prismaInstance s \<noteq> None))
      else if key = StringKey ''then'' \<or> key = StringKey ''catch'' \<or> key = StringKey ''finally''
      then Inr Undefined
      else case prismaInstance s of
             None \<Rightarrow> Inl (ErrorObj (not_initialized_message key))
           | Some client \<Rightarrow> Inr (ClientMember client key))"

text \<open>
  \<^verbatim>\<open>getPrismaClient\<close> returns the proxy; without a client it first calls
  \<^verbatim>\<open>initializePrisma\<close> and only logs a rejection.
\<close>

definition getPrismaClient :: "db_state \<Rightarrow> db_state" where
  "getPrismaClient s = (if prismaInstance s = None then snd (initializePrisma s) else s)"

section \<open>The retry executor\<close>

text \<open>
  The numbers of the code are IEEE doubles. The parameters and the attempt counter
  are taken integer-valued; the product \<^verbatim>\<open>retryDelay * attempt\<close> is the exact
  product rounded to the nearest double (ties to the even significand), which is
  the exact product below \<open>2 ^ 53\<close> and an infinity from \<open>2 ^ 1024\<close> on.
\<close>

datatype js_number = Finite int | Infinity | MinusInfinity

function bit_length :: "int \<Rightarrow> nat" where
  "bit_length n = (if n \<le> 0 then 0 else Suc (bit_length (n div 2)))"
  by pat_completeness auto
termination
  by (relation "measure nat") auto

declare bit_length.simps [simp del]

definition to_double :: "int \<Rightarrow> js_number" where
  "to_double x =
     (let a = \<bar>x\<bar>
      in if a < 2 ^ 53 then Finite x
         else
           let ulp = 2 ^ (bit_length a - 53);
               q = a div ulp;
               r = a mod ulp;
               q' = (if 2 * r < ulp then q
                     else if ulp < 2 * r then q + 1
                     else if even q then q else q + 1);
               rounded = q' * ulp
           in if 2 ^ 1024 \<le> rounded then (if x < 0 then MinusInfinity else Infinity)
              else Finite (if x < 0 then - rounded else rounded))"

definition js_times :: "int \<Rightarrow> int \<Rightarrow> js_number" where
  "js_times a b = to_double (a * b)"

text \<open>
  What \<^verbatim>\<open>withRetry\<close> itself does, in order: it runs the operation of an attempt,
  calls \<^verbatim>\<open>reconnectPrisma\<close>, sets a timer for a delay in milliseconds (the value
  handed to \<^verbatim>\<open>setTimeout\<close>) and waits for it.
\<close>

datatype event = EvOperation int | EvReconnect | EvSleep js_number

text \<open>
  The \<^verbatim>\<open>try\<close> block of one attempt. The operation's outcome is given per attempt
  number and client.
\<close>

definition attempt_body ::
  "world \<Rightarrow> (int \<Rightarrow> handle \<Rightarrow> thrown + 'a) \<Rightarrow> int \<Rightarrow> db_state \<Rightarrow> (thrown + 'a) \<times> event list \<times> db_state"
where
  "attempt_body w operation attempt s =
     (case await_getPrismaClientAsync w s of
        (Inl e, s1) \<Rightarrow> (Inl e, [], s1)
      | (Inr prisma, s1) \<Rightarrow> (operation attempt prisma, [EvOperation attempt], s1))"

text \<open>\<^verbatim>\<open>error instanceof Error ? error : new Error('Unknown error')\<close>, as its message.\<close>

definition retry_lastError :: "thrown \<Rightarrow> string" where
  "retry_lastError error = (case error of ErrorObj m \<Rightarrow> m | NonError \<Rightarrow> ''Unknown error'')"

function withRetry_loop ::
  "world \<Rightarrow> (int \<Rightarrow> handle \<Rightarrow> thrown + 'a) \<Rightarrow> int \<Rightarrow> int \<Rightarrow> int \<Rightarrow> string option \<Rightarrow> db_state
     \<Rightarrow> (thrown + 'a) \<times> event list \<times> db_state"
where
  "withRetry_loop w operation maxRetries retryDelay attempt lastError s =
     (if attempt \<le> maxRetries then
        (case attempt_body w operation attempt s of
           (Inr v, evs, s1) \<Rightarrow> (Inr v, evs, s1)
         | (Inl error, evs, s1) \<Rightarrow>
             if retry_isConnectionError (retry_lastError error) \<and> attempt < maxRetries
             then
               (case withRetry_loop w operation maxRetries retryDelay (attempt + 1)
                       (Some (retry_lastError error)) (snd (reconnectPrisma w s1)) of
                  (r, evs', s') \<Rightarrow>
                    (r, evs @ [EvReconnect, EvSleep (js_times retryDelay attempt)] @ evs', s'))
             else (Inl (ErrorObj (retry_lastError error)), evs, s1))
      else
        (Inl (ErrorObj (case lastError of Some m \<Rightarrow> m
                        | None \<Rightarrow> ''Operation failed after retries'')), [], s))"
  by pat_completeness auto
termination
  by (relation "measure (\<lambda>(w, operation, maxRetries, retryDelay, attempt, lastError, s).
                   nat (maxRetries + 1 - attempt))") auto

declare withRetry_loop.simps [simp del]


text \<open>
  No rejected initialization is held: with no client, \<open>initPromise\<close> is empty, pending
  or fulfilled.
\<close>

definition no_cached_rejection :: "db_state \<Rightarrow> bool" where
  "no_cached_rejection s =
     (case prismaInstance s of
        Some client \<Rightarrow> True
      | None \<Rightarrow>
          (case initPromise s of
             None \<Rightarrow> True
           | Some p \<Rightarrow> (case promises s p of Rejected e \<Rightarrow> False | _ \<Rightarrow> True)))"

text \<open>
  The state in which attempt \<open>n + 1\<close> of a call of \<^verbatim>\<open>withRetry\<close> starts when each
  of the first \<open>n\<close> attempts ended in the retry branch: the state the \<^verbatim>\<open>try\<close> block
  of attempt \<open>n\<close> left, taken through \<^verbatim>\<open>reconnectPrisma\<close>. \<open>nth_attempt\<close> is the
  \<^verbatim>\<open>try\<close> block of attempt \<open>k\<close> run in that state.
\<close>

fun retry_state ::
  "world \<Rightarrow> (int \<Rightarrow> handle \<Rightarrow> thrown + 'a) \<Rightarrow> nat \<Rightarrow> db_state \<Rightarrow> db_state"
where
  "retry_state w operation 0 s = s"
| "retry_state w operation (Suc n) s =
     snd (reconnectPrisma w
       (snd (snd (attempt_body w operation (int (Suc n)) (retry_state w operation n s)))))"

definition nth_attempt ::
  "world \<Rightarrow> (int \<Rightarrow> handle \<Rightarrow> thrown + 'a) \<Rightarrow> int \<Rightarrow> db_state
     \<Rightarrow> (thrown + 'a) \<times> event list \<times> db_state"
where
  "nth_attempt w operation k s =
     attempt_body w operation k (retry_state w operation (nat (k - 1)) s)"

definition withRetry ::
  "world \<Rightarrow> (int \<Rightarrow> handle \<Rightarrow> thrown + 'a) \<Rightarrow> int \<Rightarrow> int \<Rightarrow> db_state
     \<Rightarrow> (thrown + 'a) \<times> event list \<times> db_state"
where
  "withRetry w operation maxRetries retryDelay s =
     withRetry_loop w operation maxRetries retryDelay 1 None s"

section \<open>The deferred persistence of the audit log sink\<close>

datatype log_type = Info | Success | Error | Warning | Debug

record LogData =
  userId :: "int option"
  screenName :: "string option"
  screenUrl :: "string option"
  callerFunction :: "string option"
  buttonId :: "string option"
  calledApi :: "string option"
  backendApiUrl :: "string option"
  logType :: log_type
  message :: "string option"
  errorCode :: "string option"
  metadata :: "(string \<times> string) list option"

text \<open>
  What the surroundings decide for the callback: whether the dynamic import of
  the database module throws, what \<^verbatim>\<open>prisma.user.findUnique\<close> yields on a client for
  a user id (the id found, none, or an error), and what \<^verbatim>\<open>prisma.log.create\<close> throws
  at each attempt of \<^verbatim>\<open>withRetry\<close>.
\<close>

record sink_world =
  db_world :: world
  importOutcome :: "thrown option"
  findUnique :: "handle \<Rightarrow> int \<Rightarrow> thrown + int option"
  logCreate :: "int \<Rightarrow> handle \<Rightarrow> LogData \<Rightarrow> thrown option"

text \<open>
  The \<^verbatim>\<open>data\<close> object given to \<^verbatim>\<open>prisma.log.create\<close>; it has the members of the
  event, with the verified user id, the message cut to 5000 characters and the
  metadata defaulting to the empty object.
\<close>

definition log_create_data :: "LogData \<Rightarrow> int option \<Rightarrow> LogData" where
  "log_create_data data validUserId =
     data\<lparr>userId := validUserId,
          message := map_option (take 5000) (message data),
          metadata := Some (case metadata data of Some m \<Rightarrow> m | None \<Rightarrow> [])\<rparr>"

text \<open>
  The lookup of the user. \<^verbatim>\<open>if (data.userId)\<close> is false for a missing id and for 0.
  The client comes from \<^verbatim>\<open>getPrismaClient()\<close>, so \<^verbatim>\<open>prisma.user\<close> goes through the
  facade's \<^verbatim>\<open>get\<close> trap.
\<close>

definition resolve_userId ::
  "sink_world \<Rightarrow> LogData \<Rightarrow> db_state \<Rightarrow> (thrown + int option) \<times> db_state"
where
  "resolve_userId w data s =
     (case userId data of
        None \<Rightarrow> (Inr None, s)
      | Some uid \<Rightarrow>
          if uid = 0 then (Inr None, s)
          else
            let s1 = getPrismaClient s
            in case lazyProxy_get s1 (StringKey ''user'') of
                 Inl e \<Rightarrow> (Inl e, s1)
               | Inr (ClientMember client _) \<Rightarrow>
                   (case findUnique w client uid of
                      Inl e \<Rightarrow> (Inl e, s1)
                    | Inr user \<Rightarrow> (Inr user, s1))
               | Inr _ \<Rightarrow>
                   (Inl (ErrorObj ''Cannot read properties of undefined''), s1))"

text \<open>The \<^verbatim>\<open>try\<close> block of the callback.\<close>

definition persist_body ::
  "sink_world \<Rightarrow> LogData \<Rightarrow> db_state \<Rightarrow> (thrown + unit) \<times> event list \<times> db_state"
where
  "persist_body w data s =
     (case importOutcome w of
        Some e \<Rightarrow> (Inl e, [], s)
      | None \<Rightarrow>
          (case resolve_userId w data s of
             (Inl e, s1) \<Rightarrow> (Inl e, [], s1)
           | (Inr validUserId, s1) \<Rightarrow>
               withRetry (db_world w)
                 (\<lambda>attempt prisma.
                    case logCreate w attempt prisma (log_create_data data validUserId) of
                      Some e \<Rightarrow> Inl e
                    | None \<Rightarrow> Inr ())
                 2 500 s1))"

text \<open>
  The whole callback: the first component is how it completes (\<open>Inl\<close>: an error
  leaves it), \<open>now\<close> is \<^verbatim>\<open>Date.now()\<close> in its \<^verbatim>\<open>catch\<close> block.
\<close>

definition persist_task ::
  "sink_world \<Rightarrow> int \<Rightarrow> LogData \<Rightarrow> log_state \<Rightarrow> db_state
     \<Rightarrow> (thrown + unit) \<times> log_state \<times> db_state"
where
  "persist_task w now data b s =
     (case persist_body w data s of
        (Inr u, evs, s1) \<Rightarrow> (Inr (), persist_settled (Inr u) now b, s1)
      | (Inl dbError, evs, s1) \<Rightarrow> (Inr (), persist_settled (Inl dbError) now b, s1))"

section \<open>The sink and the supervisor as one process\<close>

text \<open>
  \<open>immediates\<close> is the queue of \<^verbatim>\<open>setImmediate\<close> callbacks, oldest first. An action
  is a call of \<^verbatim>\<open>enableDatabaseLogging\<close>, a call of \<^verbatim>\<open>logToDatabase\<close> (with the
  two clock readings), or the event loop running the oldest callback. \<open>step\<close> gives
  how the call or callback completes and the next state. A callback runs alone
  and to its end; an initialization body that \<^verbatim>\<open>getPrismaClient\<close> started stays
  pending until a callback awaits it.
\<close>

record system =
  breaker :: log_state
  database :: db_state
  immediates :: "LogData list"

datatype action =
  CallEnable | CallLog int int LogData | RunImmediate sink_world int

fun step :: "action \<Rightarrow> system \<Rightarrow> (thrown + unit) \<times> system" where
  "step CallEnable sys = (Inr (), sys\<lparr>breaker := enableDatabaseLogging (breaker sys)\<rparr>)"
| "step (CallLog now now2 data) sys =
     (case logToDatabase now now2 data (breaker sys) of
        (None, b) \<Rightarrow> (Inr (), sys\<lparr>breaker := b\<rparr>)
      | (Some callback, b) \<Rightarrow>
          (Inr (), sys\<lparr>breaker := b, immediates := immediates sys @ [callback]\<rparr>))"
| "step (RunImmediate w now) sys =
     (case immediates sys of
        [] \<Rightarrow> (Inr (), sys)
      | data # rest \<Rightarrow>
          (case persist_task w now data (breaker sys) (database sys) of
             (completion, b, s) \<Rightarrow>
               (completion, \<lparr>breaker = b, database = s, immediates = rest\<rparr>)))"

fun run :: "action list \<Rightarrow> system \<Rightarrow> (thrown + unit) list \<times> system" where
  "run [] sys = ([], sys)"
| "run (a # as) sys =
     (case step a sys of
        (c, sys1) \<Rightarrow> (case run as sys1 of (cs, sys2) \<Rightarrow> (c # cs, sys2)))"

section \<open>Concrete surroundings, operations and states\<close>

text \<open>A world in which nothing throws, and one in which every \<^verbatim>\<open>$connect()\<close> is refused.\<close>

definition healthy_world :: world where
  "healthy_world = \<lparr>initOutcome = (\<lambda>p. None), connectOutcome = (\<lambda>c. None)\<rparr>"



definition rejecting_operation :: "int \<Rightarrow> handle \<Rightarrow> thrown + unit" where
  "rejecting_operation attempt prisma = Inl (ErrorObj ''Unique constraint failed'')"

text \<open>The state after the first acquire call of the process and the failure of its initialization.\<close>

definition failed_init_state :: db_state where
  "failed_init_state =
     init_body (Some (ErrorObj ''Invalid URL'')) 0 (snd (getPrismaClientAsync initial_db_state))"

definition sample_event :: LogData where
  "sample_event =
     \<lparr>userId = None, screenName = Some ''Security'', screenUrl = None,
      callerFunction = Some ''SecurityMiddleware'', buttonId = None, calledApi = None,
      backendApiUrl = None, logType = Warning, message = Some ''Rate limit exceeded'',
      errorCode = None, metadata = None\<rparr>"

text \<open>A datastore that refuses every insertion, and one that rejects the row itself.\<close>

definition refusing_sink_world :: sink_world where
  "refusing_sink_world =
     \<lparr>db_world = healthy_world, importOutcome = None,
      findUnique = (\<lambda>client uid. Inr (Some uid)),
      logCreate = (\<lambda>attempt client row. Some (ErrorObj ''Connection refused''))\<rparr>"

definition rejecting_sink_world :: sink_world where
  "rejecting_sink_world =
     \<lparr>db_world = healthy_world, importOutcome = None,
      findUnique = (\<lambda>client uid. Inr (Some uid)),
      logCreate = (\<lambda>attempt client row. Some (ErrorObj ''Invalid value for logType''))\<rparr>"

definition initial_system :: system where
  "initial_system =
     \<lparr>breaker = initial_log_state, database = initial_db_state, immediates = []\<rparr>"

section \<open>Properties of the classifiers\<close>

lemma str_includes_sublist: "str_includes s marker \<longleftrightarrow> sublist marker s"
  by (induction s) (auto simp: sublist_Cons_right)

lemma retry_classifier_implies_sink:
  "retry_isConnectionError m \<Longrightarrow> isConnectionError m"
  unfolding retry_isConnectionError_def isConnectionError_def by blast

lemma sink_classifier_unfolded:
  "isConnectionError m \<longleftrightarrow> retry_isConnectionError m \<or> str_includes m ''ConnectorError''"
  unfolding retry_isConnectionError_def isConnectionError_def by blast

text \<open>
  Claim C8 says that the audit log sink and the retry executor classify every
  error alike: \<open>isConnectionError m\<close> if and only if \<open>retry_isConnectionError m\<close>.
  The two marker lists differ in the marker \<^verbatim>\<open>ConnectorError\<close>, which only the sink's
  list holds: an error with that message is a connection error for the sink and
  not for \<^verbatim>\<open>withRetry\<close>.
\<close>

theorem classifiers_disagree_on_ConnectorError:
  "isConnectionError ''ConnectorError'' \<and> \<not> retry_isConnectionError ''ConnectorError''"
  by (simp add: isConnectionError_def retry_isConnectionError_def)

section \<open>Properties of the connection supervisor\<close>

lemma acquire_calls_ready:
  "prismaInstance s = Some c \<Longrightarrow> acquire_calls n s = (replicate n (Ready c), s)"
  by (induction n) (simp_all add: getPrismaClientAsync_def initializePrisma_def)

lemma acquire_calls_awaiting:
  "prismaInstance s = None \<Longrightarrow> initPromise s = Some p \<Longrightarrow>
   acquire_calls n s = (replicate n (Awaiting p), s)"
  by (induction n) (simp_all add: getPrismaClientAsync_def initializePrisma_def)

lemma acquire_calls_fresh:
  assumes "prismaInstance s = None" and "initPromise s = None"
  shows "acquire_calls (Suc n) s =
     (replicate (Suc n) (Awaiting (nextPromise s)),
      s\<lparr>initPromise := Some (nextPromise s),
        promises := (promises s)(nextPromise s := Pending),
        nextPromise := Suc (nextPromise s)\<rparr>)"
proof -
  let ?s1 = "s\<lparr>initPromise := Some (nextPromise s),
        promises := (promises s)(nextPromise s := Pending),
        nextPromise := Suc (nextPromise s)\<rparr>"
  have first: "getPrismaClientAsync s = (Awaiting (nextPromise s), ?s1)"
    using assms by (simp add: getPrismaClientAsync_def initializePrisma_def Let_def)
  have "prismaInstance ?s1 = None" and "initPromise ?s1 = Some (nextPromise s)"
    using assms by simp_all
  from acquire_calls_awaiting[OF this, of n] first show ?thesis by simp
qed

text \<open>When the one initialization body throws, the callers share the rejection.\<close>

lemma acquire_calls_share_rejection:
  assumes "prismaInstance s = None" and "initPromise s = None"
  shows "case acquire_calls (Suc n) s of
           (as, s1) \<Rightarrow>
             constructed (init_body (Some e) (nextPromise s) s1) = constructed s \<and>
             (\<forall>a \<in> set as. settled (init_body (Some e) (nextPromise s) s1) a = Rejected e)"
  unfolding acquire_calls_fresh[OF assms]
  by (simp add: init_body_def settled_def)

text \<open>
  Claim C9: acquire is idempotent and coalesced. With a live client the call
  returns it at once and changes nothing, so no client is constructed. With no
  client and an initialization promise stored, the call returns that same promise
  and changes nothing. Hence, from the uninitialized state, \<open>n > 0\<close> acquire calls
  issued before the initialization body finishes all return the one promise the
  first call created, construct no client and create no second promise; when the
  body then finishes, it constructs exactly one client, and all \<open>n\<close> returned
  promises are fulfilled with that same handle. The same holds for calls that
  find the initialization already in flight: they change nothing, and the one
  body constructs the one client they all receive.
\<close>

theorem acquire_idempotent_and_coalesced:
  "(prismaInstance s = Some c \<longrightarrow> getPrismaClientAsync s = (Ready c, s)) \<and>
   (prismaInstance s = None \<and> initPromise s = Some p \<longrightarrow>
      getPrismaClientAsync s = (Awaiting p, s)) \<and>
   (prismaInstance s = None \<and> initPromise s = None \<and> 0 < n \<longrightarrow>
      (case acquire_calls n s of
         (as, s1) \<Rightarrow>
           length as = n \<and>
           constructed s1 = constructed s \<and>
           nextPromise s1 = Suc (nextPromise s) \<and>
           constructed (init_body None (nextPromise s) s1) = Suc (constructed s) \<and>
           prismaInstance (init_body None (nextPromise s) s1) = Some (constructed s) \<and>
           (\<forall>a \<in> set as.
              a = Awaiting (nextPromise s) \<and>
              settled s1 a = Pending \<and>
              settled (init_body None (nextPromise s) s1) a = Fulfilled (constructed s)))) \<and>
   (prismaInstance s = None \<and> initPromise s = Some p \<and> promises s p = Pending \<longrightarrow>
      acquire_calls n s = (replicate n (Awaiting p), s) \<and>
      constructed (init_body None p s) = Suc (constructed s) \<and>
      settled (init_body None p s) (Awaiting p) = Fulfilled (constructed s))"
proof (intro conjI impI)
  assume "prismaInstance s = Some c"
  then show "getPrismaClientAsync s = (Ready c, s)"
    by (simp add: getPrismaClientAsync_def initializePrisma_def)
next
  assume "prismaInstance s = None \<and> initPromise s = Some p"
  then show "getPrismaClientAsync s = (Awaiting p, s)"
    by (simp add: getPrismaClientAsync_def initializePrisma_def)
next
  assume a: "prismaInstance s = None \<and> initPromise s = None \<and> 0 < n"
  then obtain k where k: "n = Suc k" by (cases n) auto
  from a have calls: "acquire_calls (Suc k) s =
     (replicate (Suc k) (Awaiting (nextPromise s)),
      s\<lparr>initPromise := Some (nextPromise s),
        promises := (promises s)(nextPromise s := Pending),
        nextPromise := Suc (nextPromise s)\<rparr>)"
    by (intro acquire_calls_fresh) simp_all
  show "case acquire_calls n s of
         (as, s1) \<Rightarrow>
           length as = n \<and>
           constructed s1 = constructed s \<and>
           nextPromise s1 = Suc (nextPromise s) \<and>
           constructed (init_body None (nextPromise s) s1) = Suc (constructed s) \<and>
           prismaInstance (init_body None (nextPromise s) s1) = Some (constructed s) \<and>
           (\<forall>a \<in> set as.
              a = Awaiting (nextPromise s) \<and>
              settled s1 a = Pending \<and>
              settled (init_body None (nextPromise s) s1) a = Fulfilled (constructed s))"
    unfolding k calls by (simp add: init_body_def settled_def Let_def)
next
  assume "prismaInstance s = None \<and> initPromise s = Some p \<and> promises s p = Pending"
  then show "acquire_calls n s = (replicate n (Awaiting p), s)"
    by (intro acquire_calls_awaiting) simp_all
next
  show "constructed (init_body None p s) = Suc (constructed s)"
    by (simp add: init_body_def Let_def)
next
  show "settled (init_body None p s) (Awaiting p) = Fulfilled (constructed s)"
    by (simp add: init_body_def settled_def Let_def)
qed

theorem acquire_idempotent_and_coalesced_witness:
  "getPrismaClientAsync (init_body None 0 (snd (acquire_calls 3 initial_db_state))) =
     (Ready 0, init_body None 0 (snd (acquire_calls 3 initial_db_state))) \<and>
   fst (acquire_calls 3 initial_db_state) = [Awaiting 0, Awaiting 0, Awaiting 0] \<and>
   constructed (snd (acquire_calls 3 initial_db_state)) = 0 \<and>
   constructed (init_body None 0 (snd (acquire_calls 3 initial_db_state))) = 1 \<and>
   settled (init_body None 0 (snd (acquire_calls 3 initial_db_state))) (Awaiting 0) = Fulfilled 0"
proof -
  have init: "prismaInstance initial_db_state = None" "initPromise initial_db_state = None"
    "nextPromise initial_db_state = 0" "constructed initial_db_state = 0"
    by (simp_all add: initial_db_state_def)
  have third: "case acquire_calls 3 initial_db_state of
         (as, s1) \<Rightarrow>
           length as = 3 \<and>
           constructed s1 = 0 \<and>
           nextPromise s1 = Suc 0 \<and>
           constructed (init_body None 0 s1) = Suc 0 \<and>
           prismaInstance (init_body None 0 s1) = Some 0 \<and>
           (\<forall>a \<in> set as.
              a = Awaiting 0 \<and>
              settled s1 a = Pending \<and>
              settled (init_body None 0 s1) a = Fulfilled 0)"
    using acquire_idempotent_and_coalesced[of initial_db_state 0 0 3] init by simp
  obtain as s1 where as: "acquire_calls 3 initial_db_state = (as, s1)"
    by (cases "acquire_calls 3 initial_db_state")
  let ?s2 = "init_body None 0 s1"
  from third as have len: "length as = 3" and all: "\<forall>a \<in> set as. a = Awaiting 0"
    and c1: "constructed s1 = 0" and c2: "constructed ?s2 = 1"
    and live: "prismaInstance ?s2 = Some 0"
    by simp_all
  from len all have shape: "as = [Awaiting 0, Awaiting 0, Awaiting 0]"
    by (auto simp: length_Suc_conv numeral_3_eq_3)
  have again: "getPrismaClientAsync ?s2 = (Ready 0, ?s2)"
    using acquire_idempotent_and_coalesced[of ?s2 0 0 0] live by simp
  have "settled ?s2 (Awaiting 0) = Fulfilled 0"
    using third as shape by simp
  then show ?thesis using as shape again c1 c2 by simp
qed

text \<open>
  Claim C2 says that a failed initialization returns the supervisor to the
  uninitialized state, so that the next acquire starts a fresh attempt. The code
  has no such reset: the body of the initialization promise only rejects, and
  \<open>initPromise\<close> keeps the rejected promise. After the failure of the first
  initialization of the process, \<open>initPromise\<close> still holds promise 0, the next
  acquire call returns that promise, rejected, and changes nothing.
\<close>

theorem failed_initialization_not_reset_counterexample:
  "initPromise failed_init_state = Some 0 \<and>
   promises failed_init_state 0 = Rejected (ErrorObj ''Invalid URL'') \<and>
   getPrismaClientAsync failed_init_state = (Awaiting 0, failed_init_state)"
  by (simp add: failed_init_state_def getPrismaClientAsync_def initializePrisma_def
      init_body_def initial_db_state_def Let_def)

text \<open>
  Claim C2, amended. When the body of the in-flight initialization promise \<open>p\<close>
  throws \<open>e\<close>, no client is registered or constructed and \<open>initPromise\<close> keeps \<open>p\<close>,
  now rejected with \<open>e\<close>: every later acquire call returns that same promise,
  creates no new one and constructs nothing, and awaiting it rejects with \<open>e\<close>
  again. Only \<^verbatim>\<open>reconnectPrisma\<close> (with no reconnect under way) clears \<open>initPromise\<close>
  and starts a fresh initialization, whose promise settles as the world decides.
\<close>

theorem failed_initialization_stays_cached:
  assumes "prismaInstance s = None" and "initPromise s = Some p" and "promises s p = Pending"
  shows "let s' = init_body (Some e) p s in
     prismaInstance s' = None \<and> initPromise s' = Some p \<and> promises s' p = Rejected e \<and>
     constructed s' = constructed s \<and>
     acquire_calls n s' = (replicate n (Awaiting p), s') \<and>
     await_getPrismaClientAsync w s' = (Inl e, s') \<and>
     (\<not> isReconnecting s \<longrightarrow>
        initPromise (snd (reconnectPrisma w s')) = Some (nextPromise s) \<and>
        nextPromise (snd (reconnectPrisma w s')) = Suc (nextPromise s) \<and>
        promises (snd (reconnectPrisma w s')) (nextPromise s) =
          (case initOutcome w (nextPromise s) of
             None \<Rightarrow> Fulfilled (constructed s)
           | Some e' \<Rightarrow> Rejected e'))"
proof -
  define s' where "s' = init_body (Some e) p s"
  have fields: "prismaInstance s' = None" "initPromise s' = Some p"
    "promises s' p = Rejected e" "constructed s' = constructed s"
    "nextPromise s' = nextPromise s" "isReconnecting s' = isReconnecting s"
    using assms by (simp_all add: s'_def init_body_def)
  have calls: "acquire_calls n s' = (replicate n (Awaiting p), s')"
    using fields by (intro acquire_calls_awaiting) simp_all
  have await: "await_getPrismaClientAsync w s' = (Inl e, s')"
    using fields
    by (simp add: await_getPrismaClientAsync_def getPrismaClientAsync_def
        initializePrisma_def await_acquired_def)
  have reconnect: "initPromise (snd (reconnectPrisma w s')) = Some (nextPromise s) \<and>
        nextPromise (snd (reconnectPrisma w s')) = Suc (nextPromise s) \<and>
        promises (snd (reconnectPrisma w s')) (nextPromise s) =
          (case initOutcome w (nextPromise s) of
             None \<Rightarrow> Fulfilled (constructed s)
           | Some e' \<Rightarrow> Rejected e')"
    if "\<not> isReconnecting s"
    using that fields
    by (simp add: reconnectPrisma_def initializePrisma_def await_acquired_def init_body_def
        Let_def split: option.splits)
  show ?thesis
    unfolding Let_def s'_def[symmetric] using fields calls await reconnect by simp
qed

theorem failed_initialization_stays_cached_witness:
  "acquire_calls 2 failed_init_state = ([Awaiting 0, Awaiting 0], failed_init_state) \<and>
   constructed failed_init_state = 0 \<and>
   await_getPrismaClientAsync healthy_world failed_init_state =
     (Inl (ErrorObj ''Invalid URL''), failed_init_state) \<and>
   initPromise (snd (reconnectPrisma healthy_world failed_init_state)) = Some 1 \<and>
   promises (snd (reconnectPrisma healthy_world failed_init_state)) 1 = Fulfilled 0"
proof -
  let ?s = "snd (getPrismaClientAsync initial_db_state)"
  have pre: "prismaInstance ?s = None" "initPromise ?s = Some 0" "promises ?s 0 = Pending"
    "\<not> isReconnecting ?s" "nextPromise ?s = 1" "constructed ?s = 0"
    by (simp_all add: getPrismaClientAsync_def initializePrisma_def initial_db_state_def Let_def)
  have two: "replicate 2 (Awaiting 0) = [Awaiting 0, Awaiting 0]"
    by (simp add: numeral_2_eq_2)
  show ?thesis
    using failed_initialization_stays_cached[OF pre(1-3), of "ErrorObj ''Invalid URL''" 2 healthy_world]
      pre(4-6) two
    by (simp add: Let_def failed_init_state_def[symmetric] healthy_world_def)
qed

section \<open>Properties of the lazy access facade\<close>

text \<open>
  Claim C7 says that before the client is ready every property read of the facade
  throws, except \<^verbatim>\<open>then\<close>, \<^verbatim>\<open>catch\<close> and \<^verbatim>\<open>finally\<close>. The trap answers one more
  member before it looks for the client: reading \<^verbatim>\<open>_initialized\<close> in the initial
  state returns \<^verbatim>\<open>false\<close> and does not throw.
\<close>

theorem facade_initialized_flag_counterexample:
  "prismaInstance initial_db_state = None \<and>
   lazyProxy_get initial_db_state (StringKey ''_initialized'') = Inr (Boolean False)"
  by (simp add: lazyProxy_get_def initial_db_state_def)

text \<open>
  Claim C7, amended. Before the client is ready, reading \<^verbatim>\<open>_initialized\<close> returns
  \<^verbatim>\<open>false\<close>, reading \<^verbatim>\<open>then\<close>, \<^verbatim>\<open>catch\<close> or \<^verbatim>\<open>finally\<close> returns \<^verbatim>\<open>undefined\<close>, and
  reading any other member (a string or a symbol key) throws an \<^verbatim>\<open>Error\<close> whose
  message holds the accessed member between quotes and the instruction
  \<^verbatim>\<open>Use getPrismaClientAsync()\<close>.
\<close>

theorem facade_before_ready:
  assumes "prismaInstance s = None"
  shows "lazyProxy_get s key =
     (if key = StringKey ''_initialized'' then Inr (Boolean False)
      else if key \<in> {StringKey ''then'', StringKey ''catch'', StringKey ''finally''}
      then Inr Undefined
      else Inl (ErrorObj (not_initialized_message key))) \<and>
     str_includes (not_initialized_message key) ([CHR 0x27] @ String_of key @ [CHR 0x27]) \<and>
     str_includes (not_initialized_message key) ''Use getPrismaClientAsync()''"
proof (intro conjI)
  show "lazyProxy_get s key =
     (if key = StringKey ''_initialized'' then Inr (Boolean False)
      else if key \<in> {StringKey ''then'', StringKey ''catch'', StringKey ''finally''}
      then Inr Undefined
      else Inl (ErrorObj (not_initialized_message key)))"
    using assms by (simp add: lazyProxy_get_def)
  show "str_includes (not_initialized_message key) ([CHR 0x27] @ String_of key @ [CHR 0x27])"
    unfolding str_includes_sublist not_initialized_message_def
    by (metis append.assoc sublist_appendI)
  have "not_initialized_message key =
     (''Prisma not initialized. Accessing '' @ [CHR 0x27] @ String_of key @ [CHR 0x27] @
      '' before database is ready. '') @
     ''Use getPrismaClientAsync()'' @ '' for async operations.''"
    by (simp add: not_initialized_message_def)
  then show "str_includes (not_initialized_message key) ''Use getPrismaClientAsync()''"
    unfolding str_includes_sublist by (metis sublist_appendI)
qed

theorem facade_before_ready_witness:
  "lazyProxy_get initial_db_state (StringKey ''user'') =
     Inl (ErrorObj (''Prisma not initialized. Accessing '' @ [CHR 0x27] @ ''user'' @ [CHR 0x27] @
       '' before database is ready. Use getPrismaClientAsync() for async operations.'')) \<and>
   lazyProxy_get initial_db_state (StringKey ''then'') = Inr Undefined \<and>
   lazyProxy_get initial_db_state (SymbolKey ''nodejs.util.inspect.custom'') =
     Inl (ErrorObj (''Prisma not initialized. Accessing '' @ [CHR 0x27] @
       ''Symbol(nodejs.util.inspect.custom)'' @ [CHR 0x27] @
       '' before database is ready. Use getPrismaClientAsync() for async operations.''))"
proof -
  have none: "prismaInstance initial_db_state = None"
    by (simp add: initial_db_state_def)
  show ?thesis
    using facade_before_ready[OF none, of "StringKey ''user''"]
      facade_before_ready[OF none, of "StringKey ''then''"]
      facade_before_ready[OF none, of "SymbolKey ''nodejs.util.inspect.custom''"]
    by (simp add: not_initialized_message_def)
qed

section \<open>Properties of the retry executor\<close>

text \<open>One iteration of the loop of \<^verbatim>\<open>withRetry\<close>: it rethrows, or it reconnects, sleeps and goes on.\<close>

lemma withRetry_loop_rethrow:
  assumes "attempt_body w operation a s = (Inl e, evs, s1)"
    and "a \<le> N"
    and "\<not> retry_isConnectionError (retry_lastError e) \<or> \<not> a < N"
  shows "withRetry_loop w operation N d a le s = (Inl (ErrorObj (retry_lastError e)), evs, s1)"
  using assms by (subst withRetry_loop.simps) auto

lemma withRetry_loop_retry:
  assumes "attempt_body w operation a s = (Inl e, evs, s1)"
    and "a < N"
    and "retry_isConnectionError (retry_lastError e)"
    and "withRetry_loop w operation N d (a + 1) (Some (retry_lastError e))
           (snd (reconnectPrisma w s1)) = (r, evs', s')"
  shows "withRetry_loop w operation N d a le s =
           (r, evs @ [EvReconnect, EvSleep (js_times d a)] @ evs', s')"
  using assms by (subst withRetry_loop.simps) simp

text \<open>Where no initialization throws and no rejection is held, acquiring yields a client.\<close>

lemma acquire_succeeds:
  assumes "\<forall>p. initOutcome w p = None" and "no_cached_rejection s"
  shows "\<exists>h s1. await_getPrismaClientAsync w s = (Inr h, s1) \<and> no_cached_rejection s1"
proof (cases "prismaInstance s")
  case (Some c)
  then show ?thesis
    using assms(2)
    by (simp add: await_getPrismaClientAsync_def getPrismaClientAsync_def initializePrisma_def
        await_acquired_def)
next
  case None
  show ?thesis
  proof (cases "initPromise s")
    case no_promise: None
    show ?thesis
      using None no_promise assms(1)
      by (simp add: await_getPrismaClientAsync_def getPrismaClientAsync_def
          initializePrisma_def await_acquired_def init_body_def no_cached_rejection_def Let_def)
  next
    case (Some p)
    show ?thesis
    proof (cases "promises s p")
      case Pending
      then show ?thesis
        using None Some assms(1)
        by (simp add: await_getPrismaClientAsync_def getPrismaClientAsync_def
            initializePrisma_def await_acquired_def init_body_def no_cached_rejection_def Let_def)
    next
      case (Fulfilled c)
      then show ?thesis
        using None Some assms(1)
        by (simp add: await_getPrismaClientAsync_def getPrismaClientAsync_def
            initializePrisma_def await_acquired_def init_body_def no_cached_rejection_def Let_def)
    next
      case (Rejected e)
      then show ?thesis
        using None Some assms(2) by (simp add: no_cached_rejection_def)
    qed
  qed
qed

lemma reconnect_keeps_no_cached_rejection:
  assumes "\<forall>p. initOutcome w p = None" and "no_cached_rejection s"
  shows "no_cached_rejection (snd (reconnectPrisma w s))"
proof (cases "isReconnecting s")
  case True
  then show ?thesis
    using acquire_succeeds[OF assms] by (auto simp: reconnectPrisma_def)
next
  case False
  then show ?thesis
    using assms(1)
    by (cases "prismaInstance s")
       (simp_all add: reconnectPrisma_def initializePrisma_def await_acquired_def
          init_body_def no_cached_rejection_def Let_def split: option.splits)
qed



text \<open>Beyond \<open>2 ^ 53\<close> the product is rounded, as the code's multiplication is.\<close>

lemma js_times_rounds: "js_times 9007199254740991 3 = Finite 27021597764222972"
  by code_simp


text \<open>Attempt \<open>k + 1\<close> starts in the state \<^verbatim>\<open>reconnectPrisma\<close> left after attempt \<open>k\<close>.\<close>

lemma retry_state_after:
  assumes "1 \<le> k"
  shows "retry_state w operation (nat k) s =
     snd (reconnectPrisma w (snd (snd (nth_attempt w operation k s))))"
proof -
  have "nat k = Suc (nat (k - 1))" and "int (Suc (nat (k - 1))) = k"
    using assms by simp_all
  then show ?thesis
    by (simp add: nth_attempt_def)
qed


lemma withRetry_loop_exhaust:
  assumes fails: "\<forall>k. 1 \<le> k \<and> k \<le> N \<longrightarrow>
      (\<exists>m. fst (nth_attempt w operation k s) = Inl (ErrorObj m) \<and> retry_isConnectionError m)"
  shows "1 \<le> a \<Longrightarrow> a \<le> N \<Longrightarrow>
     withRetry_loop w operation N d a le (retry_state w operation (nat (a - 1)) s) =
       (fst (nth_attempt w operation N s),
        concat (map (\<lambda>k. fst (snd (nth_attempt w operation k s)) @
                          [EvReconnect, EvSleep (js_times d k)]) [a..N - 1]) @
        fst (snd (nth_attempt w operation N s)),
        snd (snd (nth_attempt w operation N s)))"
proof (induction "nat (N - a)" arbitrary: a le)
  case 0
  then have aN: "a = N" by simp
  obtain m where m: "fst (nth_attempt w operation N s) = Inl (ErrorObj m)"
    using fails 0(2) aN by blast
  then have body: "attempt_body w operation N (retry_state w operation (nat (N - 1)) s) =
      (Inl (ErrorObj m), fst (snd (nth_attempt w operation N s)),
       snd (snd (nth_attempt w operation N s)))"
    unfolding nth_attempt_def by (metis prod.collapse)
  have "withRetry_loop w operation N d N le (retry_state w operation (nat (N - 1)) s) =
      (Inl (ErrorObj m), fst (snd (nth_attempt w operation N s)),
       snd (snd (nth_attempt w operation N s)))"
    using withRetry_loop_rethrow[OF body, of N d le] by (simp add: retry_lastError_def)
  then show ?case using aN m by simp
next
  case (Suc n)
  then have lt: "a < N" by simp
  obtain m where m: "fst (nth_attempt w operation a s) = Inl (ErrorObj m)"
    and conn: "retry_isConnectionError m"
    using fails Suc(3) lt by force
  then have body: "attempt_body w operation a (retry_state w operation (nat (a - 1)) s) =
      (Inl (ErrorObj m), fst (snd (nth_attempt w operation a s)),
       snd (snd (nth_attempt w operation a s)))"
    unfolding nth_attempt_def by (metis prod.collapse)
  have n: "n = nat (N - (a + 1))" using Suc(2) by simp
  have "1 \<le> a + 1" and "a + 1 \<le> N" using Suc(3) lt by simp_all
  from Suc(1)[OF n this, of "Some m"]
  have rec: "withRetry_loop w operation N d (a + 1) (Some m)
       (snd (reconnectPrisma w (snd (snd (nth_attempt w operation a s))))) =
     (fst (nth_attempt w operation N s),
      concat (map (\<lambda>k. fst (snd (nth_attempt w operation k s)) @
                        [EvReconnect, EvSleep (js_times d k)]) [a + 1..N - 1]) @
      fst (snd (nth_attempt w operation N s)),
      snd (snd (nth_attempt w operation N s)))"
    using retry_state_after[OF Suc(3), of w operation s] by simp
  have up: "[a..N - 1] = a # [a + 1..N - 1]"
    using lt by (simp add: upto_rec1)
  have conn': "retry_isConnectionError (retry_lastError (ErrorObj m))"
    using conn by (simp add: retry_lastError_def)
  have rec': "withRetry_loop w operation N d (a + 1) (Some (retry_lastError (ErrorObj m)))
       (snd (reconnectPrisma w (snd (snd (nth_attempt w operation a s))))) =
     (fst (nth_attempt w operation N s),
      concat (map (\<lambda>k. fst (snd (nth_attempt w operation k s)) @
                        [EvReconnect, EvSleep (js_times d k)]) [a + 1..N - 1]) @
      fst (snd (nth_attempt w operation N s)),
      snd (snd (nth_attempt w operation N s)))"
    using rec by (simp add: retry_lastError_def)
  show ?case
    using withRetry_loop_retry[OF body lt conn' rec', of le] unfolding up by simp
qed

text \<open>Where no initialization throws and no rejection is held, every attempt acquires a client.\<close>

lemma retry_state_no_cached_rejection:
  assumes "\<forall>p. initOutcome w p = None" and "no_cached_rejection s"
  shows "no_cached_rejection (retry_state w operation n s)"
proof (induction n)
  case 0
  then show ?case using assms(2) by simp
next
  case (Suc n)
  obtain h s1 where acq: "await_getPrismaClientAsync w (retry_state w operation n s) = (Inr h, s1)"
    and inv: "no_cached_rejection s1"
    using acquire_succeeds[OF assms(1) Suc] by blast
  have "snd (snd (attempt_body w operation (int (Suc n)) (retry_state w operation n s))) = s1"
    using acq by (simp add: attempt_body_def)
  then show ?case
    using reconnect_keeps_no_cached_rejection[OF assms(1) inv] by simp
qed




text \<open>
  Claim C5: for every operation and every \<open>maxRetries\<close>, an attempt (number
  \<open>attempt \<le> maxRetries\<close>, started in any state \<open>s\<close>) that fails with an error not
  classified as a connection error ends \<^verbatim>\<open>withRetry\<close>: the loop rejects with that
  error, the trace and the state are those the attempt itself left (at most the
  one run of the operation, no reconnect, no sleep, no further attempt). For
  \<open>attempt = 1\<close> this is \<^verbatim>\<open>withRetry\<close> as called: exactly one attempt. The error
  classified and rethrown is the thrown \<^verbatim>\<open>Error\<close> itself (a thrown value that is no
  \<^verbatim>\<open>Error\<close> is first replaced by an \<^verbatim>\<open>Error\<close> with the message \<^verbatim>\<open>Unknown error\<close>,
  and that one is classified and rethrown).
\<close>

theorem withRetry_non_connection_error_immediate:
  assumes "attempt \<le> maxRetries"
    and "fst (attempt_body w operation attempt s) = Inl error"
    and "\<not> retry_isConnectionError (retry_lastError error)"
  shows "withRetry_loop w operation maxRetries retryDelay attempt lastError s =
           (Inl (ErrorObj (retry_lastError error)), snd (attempt_body w operation attempt s)) \<and>
         (fst (snd (attempt_body w operation attempt s)) = [] \<or>
          fst (snd (attempt_body w operation attempt s)) = [EvOperation attempt]) \<and>
         (attempt = 1 \<longrightarrow>
            withRetry w operation maxRetries retryDelay s =
              (Inl (ErrorObj (retry_lastError error)), snd (attempt_body w operation 1 s))) \<and>
         (\<forall>m. error = ErrorObj m \<longrightarrow> ErrorObj (retry_lastError error) = error)"
proof -
  obtain evs s1 where rest: "snd (attempt_body w operation attempt s) = (evs, s1)"
    by (cases "snd (attempt_body w operation attempt s)")
  with assms(2) have body: "attempt_body w operation attempt s = (Inl error, evs, s1)"
    by (metis prod.collapse)
  have loop: "withRetry_loop w operation maxRetries retryDelay attempt le s =
      (Inl (ErrorObj (retry_lastError error)), evs, s1)" for le
    using withRetry_loop_rethrow[OF body assms(1)] assms(3) by simp
  have trace: "evs = [] \<or> evs = [EvOperation attempt]"
    using body by (auto simp: attempt_body_def split: prod.splits sum.splits)
  show ?thesis
    using loop trace rest by (auto simp: withRetry_def retry_lastError_def)
qed

theorem withRetry_non_connection_error_immediate_witness:
  "withRetry healthy_world rejecting_operation 3 1000 initial_db_state =
     (Inl (ErrorObj ''Unique constraint failed''), [EvOperation 1],
      init_body None 0 (snd (getPrismaClientAsync initial_db_state)))"
proof -
  have body: "attempt_body healthy_world rejecting_operation 1 initial_db_state =
     (Inl (ErrorObj ''Unique constraint failed''), [EvOperation 1],
      init_body None 0 (snd (getPrismaClientAsync initial_db_state)))"
    by (simp add: attempt_body_def await_getPrismaClientAsync_def getPrismaClientAsync_def
        initializePrisma_def await_acquired_def healthy_world_def initial_db_state_def
        rejecting_operation_def Let_def)
  have other: "\<not> retry_isConnectionError (retry_lastError (ErrorObj ''Unique constraint failed''))"
    by (simp add: retry_isConnectionError_def retry_lastError_def)
  have le: "(1::int) \<le> 3" by simp
  from withRetry_non_connection_error_immediate[OF le _ other,
      of healthy_world rejecting_operation initial_db_state 1000 None]
  show ?thesis using body by (simp add: retry_lastError_def)
qed

section \<open>Properties of the audit log sink\<close>

lemma persist_task_completes: "fst (persist_task w now data b s) = Inr ()"
  by (simp add: persist_task_def split: prod.splits sum.splits)

lemma step_completes: "fst (step a sys) = Inr ()"
proof (cases a)
  case CallEnable
  then show ?thesis by simp
next
  case (CallLog now now2 data)
  then show ?thesis by (simp split: prod.splits option.splits)
next
  case (RunImmediate w now)
  show ?thesis
  proof (cases "immediates sys")
    case Nil
    then show ?thesis using RunImmediate by simp
  next
    case (Cons data rest)
    then show ?thesis
      using RunImmediate persist_task_completes[of w now data "breaker sys" "database sys"]
      by (auto split: prod.splits)
  qed
qed

lemma run_completes: "fst (run acts sys) = replicate (length acts) (Inr ())"
proof (induction acts arbitrary: sys)
  case Nil
  then show ?case by simp
next
  case (Cons a acts)
  obtain c sys1 where first: "step a sys = (c, sys1)"
    by (cases "step a sys")
  then have c: "c = Inr ()"
    using step_completes[of a sys] by simp
  obtain cs sys2 where rest: "run acts sys1 = (cs, sys2)"
    by (cases "run acts sys1")
  then have "cs = replicate (length acts) (Inr ())"
    using Cons.IH[of sys1] by simp
  then show ?case
    using first c rest by simp
qed

lemma step_disabled:
  assumes "a \<noteq> CallEnable" and "\<not> dbLoggingEnabled (breaker sys)" and "immediates sys = []"
  shows "step a sys = (Inr (), sys)"
  using assms by (cases a) (simp_all add: logToDatabase_def)

text \<open>
  Claim C10: while \<^verbatim>\<open>enableDatabaseLogging\<close> has not been called, \<^verbatim>\<open>logToDatabase\<close>
  is a no-op. A call on a breaker state whose enabled flag is off schedules
  nothing and returns the state as it was; and from the state at module load, with
  any database state, every sequence of \<^verbatim>\<open>logToDatabase\<close> calls and event-loop turns
  (whatever the datastore would do) that holds no call of \<^verbatim>\<open>enableDatabaseLogging\<close>
  leaves the breaker state, the database state and the empty callback queue
  unchanged, each call returning normally.
\<close>

theorem logging_disabled_is_noop:
  "(\<not> dbLoggingEnabled b \<longrightarrow> logToDatabase now now2 data b = (None, b)) \<and>
   (CallEnable \<notin> set acts \<longrightarrow>
      run acts \<lparr>breaker = initial_log_state, database = s, immediates = []\<rparr> =
        (replicate (length acts) (Inr ()),
         \<lparr>breaker = initial_log_state, database = s, immediates = []\<rparr>))"
proof (intro conjI impI)
  assume "\<not> dbLoggingEnabled b"
  then show "logToDatabase now now2 data b = (None, b)"
    by (simp add: logToDatabase_def)
next
  assume "CallEnable \<notin> set acts"
  then show "run acts \<lparr>breaker = initial_log_state, database = s, immediates = []\<rparr> =
        (replicate (length acts) (Inr ()),
         \<lparr>breaker = initial_log_state, database = s, immediates = []\<rparr>)"
  proof (induction acts)
    case Nil
    then show ?case by simp
  next
    case (Cons a acts)
    have "step a \<lparr>breaker = initial_log_state, database = s, immediates = []\<rparr> =
        (Inr (), \<lparr>breaker = initial_log_state, database = s, immediates = []\<rparr>)"
      using Cons.prems by (intro step_disabled) (auto simp: initial_log_state_def)
    then show ?case using Cons by simp
  qed
qed

theorem logging_disabled_is_noop_witness:
  "logToDatabase 1000 1000 sample_event initial_log_state = (None, initial_log_state) \<and>
   run [CallLog 1000 1000 sample_event, RunImmediate refusing_sink_world 1001,
        CallLog 40000 40000 sample_event]
       initial_system =
     ([Inr (), Inr (), Inr ()], initial_system)"
proof -
  have off: "\<not> dbLoggingEnabled initial_log_state"
    by (simp add: initial_log_state_def)
  have none: "CallEnable \<notin> set [CallLog 1000 1000 sample_event,
      RunImmediate refusing_sink_world 1001, CallLog 40000 40000 sample_event]"
    by simp
  have three: "replicate (length [CallLog 1000 1000 sample_event,
      RunImmediate refusing_sink_world 1001, CallLog 40000 40000 sample_event])
      (Inr () :: thrown + unit) = [Inr (), Inr (), Inr ()]"
    by simp
  show ?thesis
    using logging_disabled_is_noop[of initial_log_state 1000 1000 sample_event
        "[CallLog 1000 1000 sample_event, RunImmediate refusing_sink_world 1001,
          CallLog 40000 40000 sample_event]" initial_db_state, unfolded three] off none
    unfolding initial_system_def by blast
qed

lemma persist_task_unfolded:
  "persist_task w now data b s =
     (Inr (), persist_settled (fst (persist_body w data s)) now b,
      snd (snd (persist_body w data s)))"
  by (simp add: persist_task_def split: prod.splits sum.splits)

text \<open>A datastore that refuses every insertion through a client that can be acquired.\<close>

lemma persist_body_refused:
  assumes init: "\<forall>p. initOutcome (db_world w) p = None"
    and import: "importOutcome w = None"
    and anonymous: "userId data = None"
    and refused: "\<forall>attempt client row. logCreate w attempt client row = Some (ErrorObj m)"
    and conn: "retry_isConnectionError m"
    and start: "no_cached_rejection s"
  shows "fst (persist_body w data s) = Inl (ErrorObj m) \<and>
         no_cached_rejection (snd (snd (persist_body w data s)))"
proof -
  let ?op = "\<lambda>attempt prisma.
      case logCreate w attempt prisma (log_create_data data None) of
        Some e \<Rightarrow> Inl e
      | None \<Rightarrow> (Inr () :: thrown + unit)"
  have body: "persist_body w data s = withRetry (db_world w) ?op 2 500 s"
    using import anonymous by (simp add: persist_body_def resolve_userId_def)
  have attempt: "\<exists>h s1. nth_attempt (db_world w) ?op k s = (Inl (ErrorObj m), [EvOperation k], s1) \<and>
      no_cached_rejection s1" for k
  proof -
    obtain h s1 where
      "await_getPrismaClientAsync (db_world w) (retry_state (db_world w) ?op (nat (k - 1)) s) =
         (Inr h, s1)" and "no_cached_rejection s1"
      using acquire_succeeds[OF init retry_state_no_cached_rejection[OF init start]] by blast
    then show ?thesis
      using refused by (simp add: nth_attempt_def attempt_body_def)
  qed
  have fails: "\<forall>k. 1 \<le> k \<and> k \<le> 2 \<longrightarrow>
      (\<exists>m'. fst (nth_attempt (db_world w) ?op k s) = Inl (ErrorObj m') \<and>
             retry_isConnectionError m')"
    using attempt conn by (metis fst_conv)
  have one: "(1::int) \<le> 1" and two: "(1::int) \<le> 2" by simp_all
  have "withRetry (db_world w) ?op 2 500 s =
      (fst (nth_attempt (db_world w) ?op 2 s),
       concat (map (\<lambda>k. fst (snd (nth_attempt (db_world w) ?op k s)) @
                         [EvReconnect, EvSleep (js_times 500 k)]) [1..2 - 1]) @
       fst (snd (nth_attempt (db_world w) ?op 2 s)),
       snd (snd (nth_attempt (db_world w) ?op 2 s)))"
    unfolding withRetry_def
    using withRetry_loop_exhaust[OF fails one two, of 500 None] by simp
  then show ?thesis
    unfolding body using attempt[of 2] by auto
qed

text \<open>
  Claim C3, with database logging enabled, for the deferred callback
  \<open>persist_task\<close> and for the process (\<open>step\<close>).
  (1) A callback whose persistence fails with a connection error increments the
  counter; exactly when the incremented counter reaches the threshold 3 it also
  sets the paused flag and sets \<open>pauseUntil\<close> to its current time plus exactly
  30000 ms, in that same step; below 3 nothing else changes.
  (2) A callback whose persistence succeeds resets the counter to 0, so that only
  failures in a row count: a failure after a success leaves the counter at 1.
  (3) Three failing callbacks in a row, from counter 0, leave counter 1, then
  counter 2, then counter 3 with the pause engaged until 30000 ms after the third.
  (4) A call while paused and before \<open>pauseUntil\<close> returns without any change to the
  breaker, the database state or the queue of callbacks: nothing is scheduled.
  (5) A call while paused at or after \<open>pauseUntil\<close> clears the paused flag, resets
  the counter to 0 and puts the persistence callback for its event on the queue.
  (6) The event loop runs a queued callback as the persistence of its event,
  which, once the import has succeeded and with no user to look up, is
  \<^verbatim>\<open>withRetry\<close> with 2 attempts and a base delay of 500 ms on \<^verbatim>\<open>prisma.log.create\<close>.
\<close>

theorem breaker_trip_pause_and_lapse:
  "(fst (persist_body w data s) = Inl (ErrorObj m) \<and> isConnectionError m \<longrightarrow>
      fst (snd (persist_task w now data b s)) =
        (if 3 \<le> dbLoggingRetryCount b + 1
         then b\<lparr>dbLoggingRetryCount := dbLoggingRetryCount b + 1, dbLoggingPaused := True,
                dbLoggingPauseUntil := now + 30000\<rparr>
         else b\<lparr>dbLoggingRetryCount := dbLoggingRetryCount b + 1\<rparr>)) \<and>
   (fst (persist_body w data s) = Inr () \<longrightarrow>
      fst (snd (persist_task w now data b s)) = b\<lparr>dbLoggingRetryCount := 0\<rparr>) \<and>
   (fst (persist_body w1 d1 s1) = Inr () \<and>
    fst (persist_body w2 d2 s2) = Inl (ErrorObj m2) \<and> isConnectionError m2 \<longrightarrow>
      fst (snd (persist_task w2 t2 d2 (fst (snd (persist_task w1 t1 d1 b s1))) s2)) =
        b\<lparr>dbLoggingRetryCount := 1\<rparr>) \<and>
   (dbLoggingRetryCount b = 0 \<and>
    fst (persist_body w1 d1 s1) = Inl (ErrorObj m1) \<and> isConnectionError m1 \<and>
    fst (persist_body w2 d2 s2) = Inl (ErrorObj m2) \<and> isConnectionError m2 \<and>
    fst (persist_body w3 d3 s3) = Inl (ErrorObj m3) \<and> isConnectionError m3 \<longrightarrow>
      fst (snd (persist_task w1 t1 d1 b s1)) = b\<lparr>dbLoggingRetryCount := 1\<rparr> \<and>
      fst (snd (persist_task w2 t2 d2 (fst (snd (persist_task w1 t1 d1 b s1))) s2)) =
        b\<lparr>dbLoggingRetryCount := 2\<rparr> \<and>
      fst (snd (persist_task w3 t3 d3
        (fst (snd (persist_task w2 t2 d2 (fst (snd (persist_task w1 t1 d1 b s1))) s2))) s3)) =
        b\<lparr>dbLoggingRetryCount := 3, dbLoggingPaused := True,
          dbLoggingPauseUntil := t3 + 30000\<rparr>) \<and>
   (dbLoggingEnabled (breaker sys) \<and> dbLoggingPaused (breaker sys) \<and>
    t < dbLoggingPauseUntil (breaker sys) \<longrightarrow>
      logToDatabase t t' event (breaker sys) = (None, breaker sys) \<and>
      step (CallLog t t' event) sys = (Inr (), sys)) \<and>
   (dbLoggingEnabled (breaker sys) \<and> dbLoggingPaused (breaker sys) \<and>
    dbLoggingPauseUntil (breaker sys) \<le> t \<longrightarrow>
      logToDatabase t t' event (breaker sys) =
        (Some event, (breaker sys)\<lparr>dbLoggingPaused := False, dbLoggingRetryCount := 0\<rparr>) \<and>
      step (CallLog t t' event) sys =
        (Inr (),
         sys\<lparr>breaker := (breaker sys)\<lparr>dbLoggingPaused := False, dbLoggingRetryCount := 0\<rparr>,
             immediates := immediates sys @ [event]\<rparr>)) \<and>
   (immediates sys = event # rest \<longrightarrow>
      step (RunImmediate w now) sys =
        (Inr (),
         \<lparr>breaker = persist_settled (fst (persist_body w event (database sys))) now (breaker sys),
          database = snd (snd (persist_body w event (database sys))),
          immediates = rest\<rparr>)) \<and>
   (importOutcome w = None \<and> userId event = None \<longrightarrow>
      persist_body w event s =
        withRetry (db_world w)
          (\<lambda>attempt prisma.
             case logCreate w attempt prisma (log_create_data event None) of
               Some e \<Rightarrow> Inl e
             | None \<Rightarrow> Inr ())
          2 500 s)"
proof -
  have failure: "fst (snd (persist_task w now data b s)) =
        (if 3 \<le> dbLoggingRetryCount b + 1
         then b\<lparr>dbLoggingRetryCount := dbLoggingRetryCount b + 1, dbLoggingPaused := True,
                dbLoggingPauseUntil := now + 30000\<rparr>
         else b\<lparr>dbLoggingRetryCount := dbLoggingRetryCount b + 1\<rparr>)"
    if "fst (persist_body w data s) = Inl (ErrorObj m)" and "isConnectionError m"
    for w now data b s m
    using that
    by (simp add: persist_task_unfolded persist_settled_def MAX_DB_LOGGING_RETRIES_def
        DB_LOGGING_PAUSE_DURATION_def Let_def)
  have success: "fst (snd (persist_task w now data b s)) = b\<lparr>dbLoggingRetryCount := 0\<rparr>"
    if "fst (persist_body w data s) = Inr ()" for w now data b s
    using that by (simp add: persist_task_unfolded persist_settled_def)
  have paused: "logToDatabase t t' event (breaker sys) = (None, breaker sys) \<and>
      step (CallLog t t' event) sys = (Inr (), sys)"
    if "dbLoggingEnabled (breaker sys) \<and> dbLoggingPaused (breaker sys) \<and>
        t < dbLoggingPauseUntil (breaker sys)"
    using that by (simp add: logToDatabase_def)
  have lapsed: "logToDatabase t t' event (breaker sys) =
        (Some event, (breaker sys)\<lparr>dbLoggingPaused := False, dbLoggingRetryCount := 0\<rparr>) \<and>
      step (CallLog t t' event) sys =
        (Inr (),
         sys\<lparr>breaker := (breaker sys)\<lparr>dbLoggingPaused := False, dbLoggingRetryCount := 0\<rparr>,
             immediates := immediates sys @ [event]\<rparr>)"
    if "dbLoggingEnabled (breaker sys) \<and> dbLoggingPaused (breaker sys) \<and>
        dbLoggingPauseUntil (breaker sys) \<le> t"
    using that by (simp add: logToDatabase_def MAX_DB_LOGGING_RETRIES_def Let_def)
  have turn: "step (RunImmediate w now) sys =
        (Inr (),
         \<lparr>breaker = persist_settled (fst (persist_body w event (database sys))) now (breaker sys),
          database = snd (snd (persist_body w event (database sys))),
          immediates = rest\<rparr>)"
    if "immediates sys = event # rest"
    using that by (simp add: persist_task_unfolded)
  have persistence: "persist_body w event s =
        withRetry (db_world w)
          (\<lambda>attempt prisma.
             case logCreate w attempt prisma (log_create_data event None) of
               Some e \<Rightarrow> Inl e
             | None \<Rightarrow> Inr ())
          2 500 s"
    if "importOutcome w = None \<and> userId event = None"
    using that by (simp add: persist_body_def resolve_userId_def)
  show ?thesis
    using failure success paused lapsed turn persistence by simp
qed

theorem breaker_trip_pause_and_lapse_witness:
  "fst (snd (persist_task refusing_sink_world 1100 sample_event
       (enableDatabaseLogging initial_log_state) initial_db_state)) =
     \<lparr>dbLoggingEnabled = True, dbLoggingRetryCount = 1, dbLoggingPaused = False,
      dbLoggingPauseUntil = 0\<rparr> \<and>
   fst (snd (persist_task refusing_sink_world 3100 sample_event
       \<lparr>dbLoggingEnabled = True, dbLoggingRetryCount = 2, dbLoggingPaused = False,
        dbLoggingPauseUntil = 0\<rparr> initial_db_state)) =
     \<lparr>dbLoggingEnabled = True, dbLoggingRetryCount = 3, dbLoggingPaused = True,
      dbLoggingPauseUntil = 33100\<rparr> \<and>
   step (CallLog 33099 33099 sample_event)
     \<lparr>breaker = \<lparr>dbLoggingEnabled = True, dbLoggingRetryCount = 3, dbLoggingPaused = True,
                 dbLoggingPauseUntil = 33100\<rparr>,
      database = initial_db_state, immediates = []\<rparr> =
     (Inr (),
      \<lparr>breaker = \<lparr>dbLoggingEnabled = True, dbLoggingRetryCount = 3, dbLoggingPaused = True,
                  dbLoggingPauseUntil = 33100\<rparr>,
       database = initial_db_state, immediates = []\<rparr>) \<and>
   step (CallLog 33100 33100 sample_event)
     \<lparr>breaker = \<lparr>dbLoggingEnabled = True, dbLoggingRetryCount = 3, dbLoggingPaused = True,
                 dbLoggingPauseUntil = 33100\<rparr>,
      database = initial_db_state, immediates = []\<rparr> =
     (Inr (),
      \<lparr>breaker = \<lparr>dbLoggingEnabled = True, dbLoggingRetryCount = 0, dbLoggingPaused = False,
                  dbLoggingPauseUntil = 33100\<rparr>,
       database = initial_db_state, immediates = [sample_event]\<rparr>) \<and>
   breaker (snd (run
     [CallEnable,
      CallLog 1000 1000 sample_event, RunImmediate refusing_sink_world 1100,
      CallLog 2000 2000 sample_event, RunImmediate refusing_sink_world 2100,
      CallLog 3000 3000 sample_event, RunImmediate refusing_sink_world 3100]
     initial_system)) =
     \<lparr>dbLoggingEnabled = True, dbLoggingRetryCount = 3, dbLoggingPaused = True,
      dbLoggingPauseUntil = 33100\<rparr> \<and>
   breaker (snd (run
     [CallEnable,
      CallLog 1000 1000 sample_event, RunImmediate refusing_sink_world 1100,
      CallLog 2000 2000 sample_event, RunImmediate refusing_sink_world 2100]
     initial_system)) =
     \<lparr>dbLoggingEnabled = True, dbLoggingRetryCount = 2, dbLoggingPaused = False,
      dbLoggingPauseUntil = 0\<rparr>"
proof -
  let ?b0 = "enableDatabaseLogging initial_log_state"
  let ?b2 = "\<lparr>dbLoggingEnabled = True, dbLoggingRetryCount = 2, dbLoggingPaused = False,
        dbLoggingPauseUntil = 0\<rparr>"
  let ?tripped = "\<lparr>breaker = \<lparr>dbLoggingEnabled = True, dbLoggingRetryCount = 3,
        dbLoggingPaused = True, dbLoggingPauseUntil = 33100\<rparr>,
      database = initial_db_state, immediates = []\<rparr>"
  have sink_conn: "isConnectionError ''Connection refused''"
    by (simp add: isConnectionError_def)
  have retry_conn: "retry_isConnectionError ''Connection refused''"
    by (simp add: retry_isConnectionError_def)
  have refused: "fst (persist_body refusing_sink_world sample_event s) =
        Inl (ErrorObj ''Connection refused'') \<and>
      no_cached_rejection (snd (snd (persist_body refusing_sink_world sample_event s)))"
    if "no_cached_rejection s" for s
    using that retry_conn
    by (intro persist_body_refused)
       (simp_all add: refusing_sink_world_def healthy_world_def sample_event_def)
  have start: "no_cached_rejection initial_db_state"
    by (simp add: no_cached_rejection_def initial_db_state_def)
  note first = refused[OF start]
  note second = refused[OF first[THEN conjunct2]]
  note third = refused[OF second[THEN conjunct2]]
  have one: "fst (snd (persist_task refusing_sink_world 1100 sample_event ?b0 initial_db_state)) =
      \<lparr>dbLoggingEnabled = True, dbLoggingRetryCount = 1, dbLoggingPaused = False,
       dbLoggingPauseUntil = 0\<rparr>"
    using breaker_trip_pause_and_lapse[THEN conjunct1,
        of refusing_sink_world sample_event initial_db_state "''Connection refused''" 1100 ?b0]
      first sink_conn
    by (simp add: enableDatabaseLogging_def initial_log_state_def)
  have trip: "fst (snd (persist_task refusing_sink_world 3100 sample_event ?b2 initial_db_state)) =
      \<lparr>dbLoggingEnabled = True, dbLoggingRetryCount = 3, dbLoggingPaused = True,
       dbLoggingPauseUntil = 33100\<rparr>"
    using breaker_trip_pause_and_lapse[THEN conjunct1,
        of refusing_sink_world sample_event initial_db_state "''Connection refused''" 3100 ?b2]
      first sink_conn
    by simp
  note calls = breaker_trip_pause_and_lapse[THEN conjunct2, THEN conjunct2, THEN conjunct2,
      THEN conjunct2]
  have no_op: "step (CallLog 33099 33099 sample_event) ?tripped = (Inr (), ?tripped)"
    using calls[THEN conjunct1, of ?tripped 33099 33099 sample_event] by simp
  have resumed: "step (CallLog 33100 33100 sample_event) ?tripped =
     (Inr (),
      \<lparr>breaker = \<lparr>dbLoggingEnabled = True, dbLoggingRetryCount = 0, dbLoggingPaused = False,
                  dbLoggingPauseUntil = 33100\<rparr>,
       database = initial_db_state, immediates = [sample_event]\<rparr>)"
    using calls[THEN conjunct2, THEN conjunct1, of ?tripped 33100 33100 sample_event] by simp
  have process: "breaker (snd (run
     [CallEnable,
      CallLog 1000 1000 sample_event, RunImmediate refusing_sink_world 1100,
      CallLog 2000 2000 sample_event, RunImmediate refusing_sink_world 2100,
      CallLog 3000 3000 sample_event, RunImmediate refusing_sink_world 3100]
     initial_system)) =
     \<lparr>dbLoggingEnabled = True, dbLoggingRetryCount = 3, dbLoggingPaused = True,
      dbLoggingPauseUntil = 33100\<rparr>"
    using first second third sink_conn
    by (simp add: initial_system_def initial_log_state_def enableDatabaseLogging_def
        logToDatabase_def MAX_DB_LOGGING_RETRIES_def DB_LOGGING_PAUSE_DURATION_def
        persist_task_unfolded persist_settled_def Let_def)
  have before: "breaker (snd (run
     [CallEnable,
      CallLog 1000 1000 sample_event, RunImmediate refusing_sink_world 1100,
      CallLog 2000 2000 sample_event, RunImmediate refusing_sink_world 2100]
     initial_system)) =
     \<lparr>dbLoggingEnabled = True, dbLoggingRetryCount = 2, dbLoggingPaused = False,
      dbLoggingPauseUntil = 0\<rparr>"
    using first second sink_conn
    by (simp add: initial_system_def initial_log_state_def enableDatabaseLogging_def
        logToDatabase_def MAX_DB_LOGGING_RETRIES_def DB_LOGGING_PAUSE_DURATION_def
        persist_task_unfolded persist_settled_def Let_def)
  from one trip no_op resumed process before show ?thesis by simp
qed

text \<open>
  Claim C6: when the deferred persistence fails with an error that the sink
  does not classify as a connection error (for a thrown value that is no
  \<^verbatim>\<open>Error\<close>, the message classified is \<^verbatim>\<open>Unknown\<close>), the \<^verbatim>\<open>catch\<close> block leaves the
  whole breaker state as it was: the counter, the paused flag and \<open>pauseUntil\<close> are
  unchanged, so a pause that was not engaged stays not engaged. This holds for
  the callback as a whole, wherever in its \<^verbatim>\<open>try\<close> block the error arose.
\<close>

theorem non_connection_failure_keeps_breaker:
  assumes "\<not> isConnectionError (case dbError of ErrorObj m \<Rightarrow> m | NonError \<Rightarrow> ''Unknown'')"
  shows "persist_settled (Inl dbError) now b = b \<and>
         (fst (persist_body w data s) = Inl dbError \<longrightarrow>
            fst (snd (persist_task w now data b s)) = b \<and>
            dbLoggingRetryCount (fst (snd (persist_task w now data b s))) =
              dbLoggingRetryCount b \<and>
            dbLoggingPaused (fst (snd (persist_task w now data b s))) = dbLoggingPaused b \<and>
            dbLoggingPauseUntil (fst (snd (persist_task w now data b s))) =
              dbLoggingPauseUntil b)"
proof -
  have settled: "persist_settled (Inl dbError) now b = b"
    using assms by (simp add: persist_settled_def Let_def)
  have "fst (snd (persist_task w now data b s)) = b"
    if "fst (persist_body w data s) = Inl dbError"
    using that settled by (cases "persist_body w data s") (auto simp: persist_task_def)
  with settled show ?thesis by simp
qed

theorem non_connection_failure_keeps_breaker_witness:
  "fst (persist_body rejecting_sink_world sample_event initial_db_state) =
     Inl (ErrorObj ''Invalid value for logType'') \<and>
   fst (snd (persist_task rejecting_sink_world 5000 sample_event
     \<lparr>dbLoggingEnabled = True, dbLoggingRetryCount = 2, dbLoggingPaused = False,
      dbLoggingPauseUntil = 0\<rparr> initial_db_state)) =
     \<lparr>dbLoggingEnabled = True, dbLoggingRetryCount = 2, dbLoggingPaused = False,
      dbLoggingPauseUntil = 0\<rparr>"
proof -
  have other: "\<not> isConnectionError
      (case ErrorObj ''Invalid value for logType'' of ErrorObj m \<Rightarrow> m | NonError \<Rightarrow> ''Unknown'')"
    by (simp add: isConnectionError_def)
  have attempt: "attempt_body healthy_world
      (\<lambda>attempt prisma.
          case logCreate rejecting_sink_world attempt prisma (log_create_data sample_event None) of
            Some e \<Rightarrow> Inl e
          | None \<Rightarrow> Inr ()) 1 initial_db_state =
     (Inl (ErrorObj ''Invalid value for logType''), [EvOperation 1],
      init_body None 0 (snd (getPrismaClientAsync initial_db_state)))"
    by (simp add: attempt_body_def await_getPrismaClientAsync_def getPrismaClientAsync_def
        initializePrisma_def await_acquired_def healthy_world_def initial_db_state_def
        rejecting_sink_world_def Let_def)
  have retry: "\<not> retry_isConnectionError (retry_lastError (ErrorObj ''Invalid value for logType''))"
    by (simp add: retry_isConnectionError_def retry_lastError_def)
  have failed: "fst (persist_body rejecting_sink_world sample_event initial_db_state) =
     Inl (ErrorObj ''Invalid value for logType'')"
    using withRetry_loop_rethrow[OF attempt, of 2 500 None] retry
    by (simp add: persist_body_def resolve_userId_def sample_event_def withRetry_def
        rejecting_sink_world_def retry_lastError_def)
  show ?thesis
    using non_connection_failure_keeps_breaker[OF other, of 5000
        "\<lparr>dbLoggingEnabled = True, dbLoggingRetryCount = 2, dbLoggingPaused = False,
          dbLoggingPauseUntil = 0\<rparr>" rejecting_sink_world sample_event initial_db_state]
      failed
    by simp
qed

text \<open>
  Claim C4: \<^verbatim>\<open>logToDatabase\<close> never throws to its caller, for every event and
  every state of the breaker, the connection and the datastore. The call itself
  returns normally; the deferred callback completes normally whatever its
  \<^verbatim>\<open>try\<close> block did, a failure of the import, of the user lookup or of the
  persistence through \<^verbatim>\<open>withRetry\<close> reaching only the breaker counters in the
  \<^verbatim>\<open>catch\<close> block (the event is dropped); and so every call and every callback of
  every run of the process completes normally.
\<close>

theorem sink_absorbs_every_error:
  "fst (step (CallLog now now2 data) sys) = Inr () \<and>
   fst (persist_task w t data b s) = Inr () \<and>
   persist_task w t data b s =
     (Inr (), persist_settled (fst (persist_body w data s)) t b,
      snd (snd (persist_body w data s))) \<and>
   fst (run acts sys) = replicate (length acts) (Inr ())"
proof -
  have "persist_task w t data b s =
     (Inr (), persist_settled (fst (persist_body w data s)) t b,
      snd (snd (persist_body w data s)))"
    by (simp add: persist_task_def split: prod.splits sum.splits)
  then show ?thesis
    using step_completes[of "CallLog now now2 data" sys] run_completes[of acts sys]
    by simp
qed

theorem sink_absorbs_every_error_witness:
  "fst (run [CallEnable, CallLog 1000 1000 sample_event,
             RunImmediate refusing_sink_world 1001] initial_system) =
     [Inr (), Inr (), Inr ()] \<and>
   fst (persist_task refusing_sink_world 1001 sample_event
          (enableDatabaseLogging initial_log_state) initial_db_state) = Inr ()"
  using sink_absorbs_every_error[of 1000 1000 sample_event initial_system
      refusing_sink_world 1001 "enableDatabaseLogging initial_log_state" initial_db_state
      "[CallEnable, CallLog 1000 1000 sample_event, RunImmediate refusing_sink_world 1001]"]
  by simp

end
